theory Spec2Isabelle
  imports Complex_Main
begin

section \<open>Quilt rendering for a light-field display: the render job\<close>

text \<open>
  The development follows \<^verbatim>\<open>lightfield_render.py\<close>: the class \<^verbatim>\<open>RenderJob\<close>
  (file paths, camera set-up, quilt assembly, file deletion, render handlers), the
  lockfile methods of \<^verbatim>\<open>RenderSettings\<close> and the modal operator that drives the job.
  Python floats are read as real numbers (rounding is not modelled), Python integers as
  \<open>int\<close>. An exception
  raised by the Python code is a value \<open>Inl e\<close> of the result. Paths follow the POSIX
  flavour of \<^verbatim>\<open>os.path\<close>.
\<close>

subsection \<open>Exceptions\<close>

datatype py_error =
    ZeroDivisionError
  | ValueError
  | IndexError
  | KeyError
  | AttributeError
  | TypeError
  | ReferenceError
  | FileNotFoundError

text \<open>Sequencing of computations that may raise.\<close>

definition ebind :: "py_error + 'a \<Rightarrow> ('a \<Rightarrow> py_error + 'b) \<Rightarrow> py_error + 'b" where
  "ebind m f = (case m of Inl e \<Rightarrow> Inl e | Inr x \<Rightarrow> f x)"

subsection \<open>Strings: \<^verbatim>\<open>str\<close> of an integer, \<^verbatim>\<open>zfill\<close>, \<^verbatim>\<open>os.path\<close>\<close>

definition digit_char :: "nat \<Rightarrow> char" where
  "digit_char d = ''0123456789'' ! d"

fun str_nat :: "nat \<Rightarrow> string" where
  "str_nat n = (if n < 10 then [digit_char n] else str_nat (n div 10) @ [digit_char (n mod 10)])"

declare str_nat.simps [simp del]

text \<open>\<^verbatim>\<open>str(i)\<close> for a Python integer.\<close>

definition str_int :: "int \<Rightarrow> string" where
  "str_int i = (if i < 0 then CHR ''-'' # str_nat (nat (- i)) else str_nat (nat i))"

text \<open>
  \<^verbatim>\<open>s.zfill(width)\<close>: zeros are inserted on the left, after a leading sign, until the
  string has the given width; a string that is long enough is returned as it is.
\<close>

definition zfill :: "string \<Rightarrow> nat \<Rightarrow> string" where
  "zfill s width =
     (if width \<le> length s then s
      else (case s of
              [] \<Rightarrow> replicate width CHR ''0''
            | c # r \<Rightarrow>
                if c = CHR ''+'' \<or> c = CHR ''-''
                then c # replicate (width - length s) CHR ''0'' @ r
                else replicate (width - length s) CHR ''0'' @ s))"

text \<open>\<^verbatim>\<open>os.path.join(a, b)\<close> with two arguments.\<close>

definition os_path_join :: "string \<Rightarrow> string \<Rightarrow> string" where
  "os_path_join a b =
     (if b \<noteq> [] \<and> hd b = CHR ''/'' then b
      else if a = [] \<or> last a = CHR ''/'' then a @ b
      else a @ ''/'' @ b)"

text \<open>\<^verbatim>\<open>s.rstrip('/')\<close>.\<close>

definition rstrip_slash :: "string \<Rightarrow> string" where
  "rstrip_slash s = rev (dropWhile (\<lambda>c. c = CHR ''/'') (rev s))"

text \<open>
  \<^verbatim>\<open>os.path.split(p)\<close>: the tail is what follows the last slash; the head is the rest,
  without its trailing slashes unless it consists of slashes only.
\<close>

definition os_path_split :: "string \<Rightarrow> string \<times> string" where
  "os_path_split p =
     (let tail = rev (takeWhile (\<lambda>c. c \<noteq> CHR ''/'') (rev p));
          head = take (length p - length tail) p
      in (if head \<noteq> [] \<and> \<not> list_all (\<lambda>c. c = CHR ''/'') head then rstrip_slash head else head,
          tail))"

subsection \<open>Data model\<close>

text \<open>
  The states of a render job (\<^verbatim>\<open>RenderJob._state\<close> holds one of these strings).
\<close>

datatype job_state =
    INVOKE_RENDER
  | INIT_RENDER
  | PRE_RENDER
  | POST_RENDER
  | COMPLETE_RENDER
  | CANCEL_RENDER
  | IDLE

text \<open>
  Vectors and 4x4 matrices of \<^verbatim>\<open>mathutils\<close>; a matrix is the list of its rows.
\<close>

type_synonym vec3 = "real \<times> real \<times> real"
type_synonym mat4 = "real list list"

text \<open>
  A camera object of the scene: the object's world matrix, scale and location, and of its
  camera data block the field of view \<^verbatim>\<open>data.angle\<close> and the shift \<^verbatim>\<open>data.shift_x\<close>.
\<close>

record camera =
  cam_name :: string
  matrix_world :: mat4
  scale :: vec3
  location :: vec3
  data_angle :: real
  data_shift_x :: real

text \<open>
  The attributes of \<^verbatim>\<open>RenderJob\<close>, in the order \<^verbatim>\<open>__init__\<close> creates them. The record
  describes a job that \<^verbatim>\<open>RenderSettings.__init__\<close> has configured from a quilt preset or
  from the lockfile, so that the quilt attributes hold numbers and the path attributes
  hold strings; \<^verbatim>\<open>seed\<close> and \<^verbatim>\<open>file_quilt_suffix\<close> may still be \<^verbatim>\<open>None\<close>. Camera
  objects are referred to by their index in the list of objects of the session. The
  attributes \<^verbatim>\<open>cancel_sign\<close> and \<^verbatim>\<open>cancel_message\<close> do not exist until \<^verbatim>\<open>init_render\<close>
  assigns them (\<open>None\<close>: no such attribute). Attributes with a leading underscore
  are not written to the lockfile.
\<close>

record RenderJob =
  init :: bool
  add_suffix :: bool
  scene :: string
  animation :: bool
  u_use_lockfile :: bool
  use_multiview :: bool
  u_state :: job_state
  frame :: int
  subframe :: real
  view :: int
  seed :: "int option"
  view_width :: int
  view_height :: int
  rows :: int
  columns :: int
  total_views :: int
  quilt_aspect :: real
  view_cone :: real
  lockfile_path :: "string option"
  outputpath :: string
  file_use_temp :: bool
  file_temp_name :: string
  file_dirname :: string
  file_basename :: string
  file_extension :: string
  file_quilt_suffix :: "string option"
  file_force_keep :: bool
  u_camera_temp_basename :: string
  u_camera_temp :: "nat list"
  u_camera_active :: "nat option"
  u_camera_original :: "nat option"
  u_multiview_view_basename :: string
  u_view_matrix :: "mat4 option"
  u_view_matrix_inv :: "mat4 option"
  u_view_images_pixels :: "real list list"
  u_quilt_image :: "real list option"
  cancel_sign :: "string option"
  cancel_message :: "string option"

text \<open>
  What the modelled code reads and writes of the Blender scene, of its render settings,
  of its Cycles settings and of the add-on settings attached to it. \<^verbatim>\<open>render_views\<close> are
  the names of the multiview render views.
\<close>

record Scene =
  frame_start :: int
  frame_end :: int
  frame_current :: int
  frame_subframe :: real
  scene_camera :: "nat option"
  resolution_x :: nat
  resolution_y :: nat
  render_engine :: string
  cycles_seed :: int
  cycles_use_animated_seed :: bool
  render_views :: "string list"
  lookingglassCamera :: "nat option"
  focalPlane :: real
  render_cancel :: bool
  render_output :: string

subsection \<open>File paths (\<^verbatim>\<open>get_quilt_suffix\<close>, \<^verbatim>\<open>quilt_filepath\<close>, \<^verbatim>\<open>view_filepath\<close>)\<close>

text \<open>
  \<^verbatim>\<open>str\<close> of a float is Python's shortest round-trip representation; it is a parameter
  \<open>str_float\<close> of the path functions.
\<close>

definition get_quilt_suffix :: "(real \<Rightarrow> string) \<Rightarrow> RenderJob \<Rightarrow> string" where
  "get_quilt_suffix str_float job =
     (if add_suffix job
      then ''_qs'' @ str_int (columns job) @ ''x'' @ str_int (rows job) @ ''a''
           @ str_float (quilt_aspect job)
      else '''')"

definition quilt_filepath :: "(real \<Rightarrow> string) \<Rightarrow> Scene \<Rightarrow> RenderJob \<Rightarrow> int option \<Rightarrow> string" where
  "quilt_filepath str_float sc job frame_arg =
     (let fr = (case frame_arg of None \<Rightarrow> frame job | Some f \<Rightarrow> f) in
      if animation job
      then os_path_join (file_dirname job)
             (file_basename job @ ''_f'' @ zfill (str_int fr) (length (str_int (frame_end sc)))
              @ get_quilt_suffix str_float job @ file_extension job)
      else os_path_join (file_dirname job)
             (file_basename job @ get_quilt_suffix str_float job @ file_extension job))"

definition view_filepath ::
  "(real \<Rightarrow> string) \<Rightarrow> Scene \<Rightarrow> RenderJob \<Rightarrow> int option \<Rightarrow> int option \<Rightarrow> string" where
  "view_filepath str_float sc job view_arg frame_arg =
     (let vw = (case view_arg of None \<Rightarrow> view job | Some v \<Rightarrow> v);
          fr = (case frame_arg of None \<Rightarrow> frame job | Some f \<Rightarrow> f) in
      if animation job
      then os_path_join (file_dirname job)
             (file_basename job @ ''_f'' @ zfill (str_int fr) (length (str_int (frame_end sc)))
              @ get_quilt_suffix str_float job
              @ ''_v'' @ zfill (str_int vw) (length (str_int (total_views job - 1)))
              @ file_extension job)
      else os_path_join (file_dirname job)
             (file_basename job @ get_quilt_suffix str_float job
              @ ''_v'' @ zfill (str_int vw) (length (str_int (total_views job - 1)))
              @ file_extension job))"

subsection \<open>The session: job, scene, objects, files\<close>

text \<open>
  The render job shares the scene, the objects of the session (\<^verbatim>\<open>bpy.data.objects\<close>) and
  the files on disk with Blender; they are passed along explicitly. \<^verbatim>\<open>data_scenes\<close> are
  the names of the scenes of the session (\<^verbatim>\<open>bpy.data.scenes\<close>). An image file is mapped
  to its pixel data; the lockfile (the file at \<^verbatim>\<open>job.lockfile_path\<close>) is kept apart from
  the image files, with the JSON document it holds. The last fields are those of the
  operator \<^verbatim>\<open>LOOKINGGLASS_OT_render_quilt\<close> and of its \<^verbatim>\<open>RenderSettings\<close>: the
  operator arguments, the operator's \<^verbatim>\<open>cancel_sign\<close> and \<^verbatim>\<open>cancel_message\<close>, what it
  has reported to the user so far (\<^verbatim>\<open>self.report\<close>), the copies \<^verbatim>\<open>frame_step\<close> and
  \<^verbatim>\<open>engine\<close> of the scene settings, and of the dictionary \<^verbatim>\<open>original\<close> the entry of the
  job. The progress bar, the image data blocks and the registration of the handlers
  are not part of the state.
\<close>

datatype json =
    JNull
  | JBool bool
  | JInt int
  | JFloat real
  | JStr string
  | JList "json list"
  | JDict "(string \<times> json) list"

record world =
  job :: RenderJob
  sc :: Scene
  objects :: "camera option list"
  data_scenes :: "string list"
  files :: "string \<rightharpoonup> real list"
  lockfile :: "json option"
  blend_filepath :: string
  op_animation :: bool
  op_use_lockfile :: bool
  op_discard_lockfile :: bool
  op_cancel_sign :: string
  op_cancel_message :: string
  reports :: "(string \<times> string) list"
  rs_frame_step :: int
  rs_engine :: string
  rs_original :: "(string \<times> json) list"


subsection \<open>Matrices (\<^verbatim>\<open>mathutils\<close>)\<close>

definition dot :: "real list \<Rightarrow> real list \<Rightarrow> real" where
  "dot xs ys = sum_list (map2 (*) xs ys)"


text \<open>\<^verbatim>\<open>M @ v\<close> for a 4x4 matrix and a 3D vector: the vector is extended by 1.\<close>

definition mat_vec :: "mat4 \<Rightarrow> vec3 \<Rightarrow> vec3" where
  "mat_vec M v =
     (case v of (x, y, z) \<Rightarrow>
        (dot (M ! 0) [x, y, z, 1], dot (M ! 1) [x, y, z, 1], dot (M ! 2) [x, y, z, 1]))"


text \<open>\<^verbatim>\<open>Matrix.Translation(v)\<close>.\<close>

definition Matrix_Translation :: "vec3 \<Rightarrow> mat4" where
  "Matrix_Translation v =
     (case v of (x, y, z) \<Rightarrow>
        [[1, 0, 0, x], [0, 1, 0, y], [0, 0, 1, z], [0, 0, 0, 1]])"

subsection \<open>Camera rig (\<^verbatim>\<open>setup_camera\<close>)\<close>

text \<open>\<^verbatim>\<open>math.radians\<close>.\<close>

definition radians :: "real \<Rightarrow> real" where
  "radians d = d * pi / 180"

text \<open>
  Python's true division \<^verbatim>\<open>a / b\<close>: it raises \<^verbatim>\<open>ZeroDivisionError\<close> when the divisor
  is zero.
\<close>

definition py_truediv :: "real \<Rightarrow> real \<Rightarrow> py_error + real" where
  "py_truediv a b = (if b = 0 then Inl ZeroDivisionError else Inr (a / b))"

text \<open>
  \<^verbatim>\<open>offsetAngle = (0.5 - self.view / (self.total_views - 1)) * radians(self.view_cone)\<close>
\<close>

definition offsetAngle :: "int \<Rightarrow> int \<Rightarrow> real \<Rightarrow> py_error + real" where
  "offsetAngle vw tv cone =
     ebind (py_truediv (real_of_int vw) (real_of_int (tv - 1)))
       (\<lambda>q. Inr ((0.5 - q) * radians cone))"

text \<open>
  \<^verbatim>\<open>offset = cameraDistance * tan(offsetAngle)\<close>. The arithmetic is that of the real
  numbers: the rounding of the double-precision operations of Python is not modelled, so
  only statements that do not depend on it (which branch is taken, which exception is
  raised, exact zeros and halves, order between well separated values) are read off
  this definition.
\<close>

definition camera_offset :: "real \<Rightarrow> int \<Rightarrow> int \<Rightarrow> real \<Rightarrow> py_error + real" where
  "camera_offset cameraDistance vw tv cone =
     ebind (offsetAngle vw tv cone) (\<lambda>a. Inr (cameraDistance * tan a))"

text \<open>
  The block ``apply position and shift'', which stands word for word in both branches of
  \<^verbatim>\<open>setup_camera\<close>: from the active camera's field of view, the focal plane, the view
  and the original camera it computes the location and the shift that are assigned to
  the active camera.
\<close>

definition apply_position_and_shift ::
  "mat4 \<Rightarrow> mat4 \<Rightarrow> camera \<Rightarrow> camera \<Rightarrow> real \<Rightarrow> real \<Rightarrow> int \<Rightarrow> int \<Rightarrow> py_error + camera" where
  "apply_position_and_shift vm vm_inv active original cameraDistance cone vw tv =
     (let fov = data_angle active;
          cameraSize = cameraDistance * tan (fov / 2) in
      ebind (camera_offset cameraDistance vw tv cone) (\<lambda>offset.
        let active1 = active\<lparr>location :=
              mat_vec vm (mat_vec (Matrix_Translation (- offset, 0, 0))
                                  (mat_vec vm_inv (location original)))\<rparr> in
        ebind (py_truediv (0.5 * offset) cameraSize) (\<lambda>s.
          Inr (active1\<lparr>data_shift_x := data_shift_x original + s\<rparr>))))"


text \<open>
  \<^verbatim>\<open>bpy.data.objects.new(name, data.copy())\<close>: a new object with the identity transform
  and a copy of the given camera data.
\<close>

definition identity_matrix :: mat4 where
  "identity_matrix = [[1, 0, 0, 0], [0, 1, 0, 0], [0, 0, 1, 0], [0, 0, 0, 1]]"









text \<open>\<^verbatim>\<open>range(0, n)\<close> for a Python integer \<open>n\<close>.\<close>

definition py_range :: "int \<Rightarrow> int list" where
  "py_range n = map int [0..<nat n]"



subsection \<open>Deleting the files of a frame (\<^verbatim>\<open>delete_files\<close>)\<close>

text \<open>\<^verbatim>\<open>if os.path.isfile(p): os.remove(p)\<close>\<close>

definition remove_if_file :: "(string \<rightharpoonup> real list) \<Rightarrow> string \<Rightarrow> (string \<rightharpoonup> real list)" where
  "remove_if_file fs p = (if p \<in> dom fs then fs(p := None) else fs)"

definition delete_files :: "(real \<Rightarrow> string) \<Rightarrow> world \<Rightarrow> int option \<Rightarrow> world" where
  "delete_files str_float w frame_arg =
     (let fs1 = fold (\<lambda>vw fs. remove_if_file fs (view_filepath str_float (sc w) (job w) (Some vw) frame_arg))
                  (py_range (total_views (job w))) (files w);
          file_basename' = snd (os_path_split (outputpath (job w)));
          fs2 = (if file_basename' = [] \<and> \<not> animation (job w)
                 then remove_if_file fs1 (quilt_filepath str_float (sc w) (job w) frame_arg)
                 else fs1)
      in w\<lparr>files := fs2, job := (job w)\<lparr>u_view_images_pixels := []\<rparr>\<rparr>)"

subsection \<open>Quilt assembly (\<^verbatim>\<open>assemble_quilt\<close>)\<close>

text \<open>
  A three-dimensional \<^verbatim>\<open>numpy\<close> array: its shape and its elements in row-major order.
  A view buffer is a one-dimensional array, the list of its elements.
\<close>

record ndarray3 =
  dim0 :: nat
  dim1 :: nat
  dim2 :: nat
  elems :: "real list"

text \<open>
  \<^verbatim>\<open>a.reshape((d0, d1, d2))\<close> of a one-dimensional array keeps the elements in their order
  and raises \<^verbatim>\<open>ValueError\<close> when the sizes differ.
\<close>

definition reshape3 :: "nat \<Rightarrow> nat \<Rightarrow> nat \<Rightarrow> real list \<Rightarrow> py_error + ndarray3" where
  "reshape3 d0 d1 d2 buf =
     (if length buf = d0 * d1 * d2
      then Inr \<lparr>dim0 = d0, dim1 = d1, dim2 = d2, elems = buf\<rparr>
      else Inl ValueError)"

text \<open>Row \<open>y\<close> of an array: the elements with first index \<open>y\<close>.\<close>

definition row_of :: "ndarray3 \<Rightarrow> nat \<Rightarrow> real list" where
  "row_of a y = take (dim1 a * dim2 a) (drop (y * (dim1 a * dim2 a)) (elems a))"

text \<open>
  \<^verbatim>\<open>np.hstack\<close> joins arrays of three dimensions along the second axis, \<^verbatim>\<open>np.vstack\<close>
  along the first one; the other dimensions must agree, and an empty list of arrays is
  an error.
\<close>

definition hstack :: "ndarray3 list \<Rightarrow> py_error + ndarray3" where
  "hstack arrs =
     (case arrs of
        [] \<Rightarrow> Inl ValueError
      | a # _ \<Rightarrow>
          if \<forall>b \<in> set arrs. dim0 b = dim0 a \<and> dim2 b = dim2 a
          then Inr \<lparr>dim0 = dim0 a, dim1 = sum_list (map dim1 arrs), dim2 = dim2 a,
                    elems = concat (map (\<lambda>y. concat (map (\<lambda>b. row_of b y) arrs)) [0..<dim0 a])\<rparr>
          else Inl ValueError)"

definition vstack :: "ndarray3 list \<Rightarrow> py_error + ndarray3" where
  "vstack arrs =
     (case arrs of
        [] \<Rightarrow> Inl ValueError
      | a # _ \<Rightarrow>
          if \<forall>b \<in> set arrs. dim1 b = dim1 a \<and> dim2 b = dim2 a
          then Inr \<lparr>dim0 = sum_list (map dim0 arrs), dim1 = dim1 a, dim2 = dim2 a,
                    elems = concat (map elems arrs)\<rparr>
          else Inl ValueError)"

text \<open>\<^verbatim>\<open>np.reshape(a, (n))\<close> to one dimension.\<close>

definition reshape1 :: "int \<Rightarrow> ndarray3 \<Rightarrow> py_error + real list" where
  "reshape1 n a = (if int (length (elems a)) = n then Inr (elems a) else Inl ValueError)"

text \<open>A loop that collects results; the first exception ends it.\<close>

fun emap :: "('a \<Rightarrow> py_error + 'b) \<Rightarrow> 'a list \<Rightarrow> py_error + 'b list" where
  "emap f [] = Inr []"
| "emap f (x # xs) = ebind (f x) (\<lambda>y. ebind (emap f xs) (\<lambda>ys. Inr (y # ys)))"

text \<open>\<^verbatim>\<open>xs[i]\<close> for a non-negative index.\<close>

definition py_index :: "'a list \<Rightarrow> int \<Rightarrow> py_error + 'a" where
  "py_index xs i = (if 0 \<le> i \<and> nat i < length xs then Inr (xs ! nat i) else Inl IndexError)"

text \<open>
  The body of the inner loop: the pixel data of the view at \<open>row * columns + column\<close>,
  reshaped to the resolution of the render with four channels.
\<close>

definition view_pixels :: "Scene \<Rightarrow> RenderJob \<Rightarrow> int \<Rightarrow> int \<Rightarrow> py_error + ndarray3" where
  "view_pixels s jb row column =
     ebind (py_index (u_view_images_pixels jb) (row * columns jb + column))
       (reshape3 (resolution_y s) (resolution_x s) 4)"

text \<open>
  The two loops and the final reshape: each row of views is stacked horizontally, the
  rows are stacked vertically in the order of the loop.
\<close>

definition quilt_pixels :: "Scene \<Rightarrow> RenderJob \<Rightarrow> py_error + real list" where
  "quilt_pixels s jb =
     ebind (emap (\<lambda>row. ebind (emap (view_pixels s jb row) (py_range (columns jb))) hstack)
                 (py_range (rows jb)))
       (\<lambda>verticalStack.
          ebind (vstack verticalStack)
            (reshape1 (columns jb * rows jb
                       * (int (resolution_x s) * int (resolution_y s) * 4))))"

text \<open>
  \<^verbatim>\<open>assemble_quilt\<close>: after the pixels are assembled, the file of the current view is
  copied to the quilt path (\<^verbatim>\<open>shutil.copy\<close> raises when the view file is missing), the
  image is loaded from there, receives the assembled pixels and is saved.
\<close>

definition assemble_quilt :: "(real \<Rightarrow> string) \<Rightarrow> world \<Rightarrow> py_error + world" where
  "assemble_quilt str_float w =
     ebind (quilt_pixels (sc w) (job w)) (\<lambda>quiltPixels.
       if view_filepath str_float (sc w) (job w) None None \<in> dom (files w)
       then Inr (w\<lparr>files := (files w)(quilt_filepath str_float (sc w) (job w) None \<mapsto> quiltPixels),
                   job := (job w)\<lparr>u_quilt_image := Some quiltPixels\<rparr>\<rparr>)
       else Inl FileNotFoundError)"

subsection \<open>Invoking a render (\<^verbatim>\<open>RenderJob.invoke\<close>)\<close>


subsection \<open>Render handlers\<close>

text \<open>
  The loop of \<^verbatim>\<open>init_render\<close> over the views rendered before the crash: the pixel data
  of each view file found is appended; at the first missing file the job is cancelled
  and the handler returns (second component \<open>False\<close>).
\<close>

fun load_views ::
  "(real \<Rightarrow> string) \<Rightarrow> Scene \<Rightarrow> (string \<rightharpoonup> real list) \<Rightarrow> RenderJob \<Rightarrow> int list
   \<Rightarrow> RenderJob \<times> bool" where
  "load_views str_float s fs jb [] = (jb, True)"
| "load_views str_float s fs jb (vw # vws) =
     (case fs (view_filepath str_float s jb (Some vw) None) of
        Some tmp_pixels \<Rightarrow>
          load_views str_float s fs
            (jb\<lparr>u_view_images_pixels := u_view_images_pixels jb @ [tmp_pixels]\<rparr>) vws
      | None \<Rightarrow>
          (jb\<lparr>u_state := CANCEL_RENDER,
              file_force_keep := True,
              cancel_sign := Some ''ERROR'',
              cancel_message := Some
                ''Render job can not be continued. Missing view file(s) of the previously failed render job.''\<rparr>,
           False))"

definition init_render :: "(real \<Rightarrow> string) \<Rightarrow> world \<Rightarrow> world" where
  "init_render str_float w =
     (if u_state (job w) \<noteq> CANCEL_RENDER \<and> \<not> render_cancel (sc w)
      then (let j1 = (job w)\<lparr>u_state := INIT_RENDER\<rparr> in
            if u_use_lockfile j1 \<and> init j1
            then (case load_views str_float (sc w) (files w) j1 (py_range (view j1)) of
                    (j2, True) \<Rightarrow> w\<lparr>job := j2\<lparr>u_use_lockfile := False\<rparr>\<rparr>
                  | (j2, False) \<Rightarrow> w\<lparr>job := j2\<rparr>)
            else w\<lparr>job := j1\<rparr>)
      else w)"

definition pre_render :: "world \<Rightarrow> world" where
  "pre_render w =
     (if u_state (job w) \<noteq> CANCEL_RENDER \<and> \<not> render_cancel (sc w)
      then w\<lparr>job := (job w)\<lparr>u_state := PRE_RENDER\<rparr>\<rparr>
      else w)"

text \<open>
  \<^verbatim>\<open>post_render\<close>: the render result (its pixels are the argument) is saved to the path of
  the current view, loaded from there and appended to the list of pixel data.
\<close>

definition post_render :: "(real \<Rightarrow> string) \<Rightarrow> world \<Rightarrow> real list \<Rightarrow> world" where
  "post_render str_float w render_result =
     (if u_state (job w) \<noteq> CANCEL_RENDER \<and> \<not> render_cancel (sc w)
      then (let j1 = (job w)\<lparr>u_state := POST_RENDER\<rparr>;
                fs = (files w)(view_filepath str_float (sc w) j1 None None \<mapsto> render_result) in
            w\<lparr>files := fs,
              job := j1\<lparr>u_view_images_pixels := u_view_images_pixels j1 @ [render_result]\<rparr>\<rparr>)
      else w)"

definition completed_render :: "world \<Rightarrow> world" where
  "completed_render w =
     (if u_state (job w) \<noteq> CANCEL_RENDER \<and> \<not> render_cancel (sc w)
      then w\<lparr>job := (job w)\<lparr>u_state := COMPLETE_RENDER, init := False\<rparr>\<rparr>
      else w)"

definition cancel_render :: "world \<Rightarrow> world" where
  "cancel_render w =
     w\<lparr>job := (job w)\<lparr>u_state := CANCEL_RENDER\<rparr>, sc := (sc w)\<lparr>render_cancel := True\<rparr>\<rparr>"

subsection \<open>Removing the temporary cameras (\<^verbatim>\<open>clean_up\<close>)\<close>





subsection \<open>The lockfile (\<^verbatim>\<open>to_dict\<close>, \<^verbatim>\<open>from_dict\<close>, \<^verbatim>\<open>write_to_lockfile\<close>, \<^verbatim>\<open>read_from_lockfile\<close>)\<close>

text \<open>
  \<^verbatim>\<open>to_dict\<close> applied to the job takes the branch for objects with a \<^verbatim>\<open>__dict__\<close>: every
  attribute whose name does not start with an underscore is an entry, in the order of
  \<^verbatim>\<open>__dict__\<close>; numbers, strings and booleans are kept, \<^verbatim>\<open>None\<close> is \<^verbatim>\<open>null\<close>, the scene
  is entered by its name. \<^verbatim>\<open>cancel_sign\<close> and \<^verbatim>\<open>cancel_message\<close> are entries once they
  exist.
\<close>

definition json_opt :: "('a \<Rightarrow> json) \<Rightarrow> 'a option \<Rightarrow> json" where
  "json_opt f x = (case x of None \<Rightarrow> JNull | Some a \<Rightarrow> f a)"

definition job_to_dict :: "RenderJob \<Rightarrow> (string \<times> json) list" where
  "job_to_dict jb =
     [(''init'', JBool (init jb)),
      (''add_suffix'', JBool (add_suffix jb)),
      (''scene'', JStr (scene jb)),
      (''animation'', JBool (animation jb)),
      (''use_multiview'', JBool (use_multiview jb)),
      (''frame'', JInt (frame jb)),
      (''subframe'', JFloat (subframe jb)),
      (''view'', JInt (view jb)),
      (''seed'', json_opt JInt (seed jb)),
      (''view_width'', JInt (view_width jb)),
      (''view_height'', JInt (view_height jb)),
      (''rows'', JInt (rows jb)),
      (''columns'', JInt (columns jb)),
      (''total_views'', JInt (total_views jb)),
      (''quilt_aspect'', JFloat (quilt_aspect jb)),
      (''view_cone'', JFloat (view_cone jb)),
      (''lockfile_path'', json_opt JStr (lockfile_path jb)),
      (''outputpath'', JStr (outputpath jb)),
      (''file_use_temp'', JBool (file_use_temp jb)),
      (''file_temp_name'', JStr (file_temp_name jb)),
      (''file_dirname'', JStr (file_dirname jb)),
      (''file_basename'', JStr (file_basename jb)),
      (''file_extension'', JStr (file_extension jb)),
      (''file_quilt_suffix'', json_opt JStr (file_quilt_suffix jb)),
      (''file_force_keep'', JBool (file_force_keep jb))]
     @ (case cancel_sign jb of None \<Rightarrow> [] | Some s \<Rightarrow> [(''cancel_sign'', JStr s)])
     @ (case cancel_message jb of None \<Rightarrow> [] | Some s \<Rightarrow> [(''cancel_message'', JStr s)])"

text \<open>
  \<^verbatim>\<open>setattr(job, key, value)\<close> for a value of one of the standard types. Python would
  also create an attribute of an unknown name and store a value of any type; the record
  cannot express that, and the job is left as it is in these cases, which do not occur
  for a dictionary written by \<^verbatim>\<open>to_dict\<close>.
\<close>

definition job_setattr :: "RenderJob \<Rightarrow> string \<Rightarrow> json \<Rightarrow> RenderJob" where
  "job_setattr jb key val =
     (case val of
        JBool b \<Rightarrow>
          (if key = ''init'' then jb\<lparr>init := b\<rparr>
           else if key = ''add_suffix'' then jb\<lparr>add_suffix := b\<rparr>
           else if key = ''animation'' then jb\<lparr>animation := b\<rparr>
           else if key = ''use_multiview'' then jb\<lparr>use_multiview := b\<rparr>
           else if key = ''file_use_temp'' then jb\<lparr>file_use_temp := b\<rparr>
           else if key = ''file_force_keep'' then jb\<lparr>file_force_keep := b\<rparr>
           else jb)
      | JInt i \<Rightarrow>
          (if key = ''frame'' then jb\<lparr>frame := i\<rparr>
           else if key = ''view'' then jb\<lparr>view := i\<rparr>
           else if key = ''seed'' then jb\<lparr>seed := Some i\<rparr>
           else if key = ''view_width'' then jb\<lparr>view_width := i\<rparr>
           else if key = ''view_height'' then jb\<lparr>view_height := i\<rparr>
           else if key = ''rows'' then jb\<lparr>rows := i\<rparr>
           else if key = ''columns'' then jb\<lparr>columns := i\<rparr>
           else if key = ''total_views'' then jb\<lparr>total_views := i\<rparr>
           else jb)
      | JFloat x \<Rightarrow>
          (if key = ''subframe'' then jb\<lparr>subframe := x\<rparr>
           else if key = ''quilt_aspect'' then jb\<lparr>quilt_aspect := x\<rparr>
           else if key = ''view_cone'' then jb\<lparr>view_cone := x\<rparr>
           else jb)
      | JStr s \<Rightarrow>
          (if key = ''lockfile_path'' then jb\<lparr>lockfile_path := Some s\<rparr>
           else if key = ''outputpath'' then jb\<lparr>outputpath := s\<rparr>
           else if key = ''file_temp_name'' then jb\<lparr>file_temp_name := s\<rparr>
           else if key = ''file_dirname'' then jb\<lparr>file_dirname := s\<rparr>
           else if key = ''file_basename'' then jb\<lparr>file_basename := s\<rparr>
           else if key = ''file_extension'' then jb\<lparr>file_extension := s\<rparr>
           else if key = ''file_quilt_suffix'' then jb\<lparr>file_quilt_suffix := Some s\<rparr>
           else if key = ''cancel_sign'' then jb\<lparr>cancel_sign := Some s\<rparr>
           else if key = ''cancel_message'' then jb\<lparr>cancel_message := Some s\<rparr>
           else jb)
      | _ \<Rightarrow> jb)"

text \<open>
  \<^verbatim>\<open>from_dict(job, dictionary)\<close>: the loop over the items. The scene is looked up by its
  name in \<^verbatim>\<open>bpy.data.scenes\<close>; a value \<^verbatim>\<open>null\<close> is none of the standard types and is
  skipped; a value of a standard type is assigned. The result is the job as the loop
  leaves it and the exception that ended the loop, if any.
\<close>

fun from_dict_job ::
  "string list \<Rightarrow> RenderJob \<Rightarrow> (string \<times> json) list \<Rightarrow> RenderJob \<times> py_error option" where
  "from_dict_job scenes jb [] = (jb, None)"
| "from_dict_job scenes jb ((key, val) # items) =
     (if key = ''scene'' \<and> val \<noteq> JNull
      then (case val of
              JStr name \<Rightarrow>
                if name \<in> set scenes then from_dict_job scenes (jb\<lparr>scene := name\<rparr>) items
                else (jb, Some KeyError)
            | _ \<Rightarrow> (jb, Some TypeError))
      else if val = JNull then from_dict_job scenes jb items
      else from_dict_job scenes (job_setattr jb key val) items)"

text \<open>Lookup in a JSON object.\<close>

definition json_get :: "(string \<times> json) list \<Rightarrow> string \<Rightarrow> json option" where
  "json_get d key = map_of d key"



text \<open>
  \<^verbatim>\<open>read_from_lockfile\<close>: the document of the lockfile is read into the settings with
  \<^verbatim>\<open>from_dict\<close>: the entry \<^verbatim>\<open>job\<close> is a dictionary and the attribute \<^verbatim>\<open>job\<close> is not, so
  it is read into the job; the entry \<^verbatim>\<open>original\<close> replaces the attribute \<^verbatim>\<open>original\<close>,
  which is a dictionary. Opening a lockfile that does not exist raises.
\<close>

definition read_from_lockfile :: "world \<Rightarrow> world \<times> py_error option" where
  "read_from_lockfile w =
     (case lockfile w of
        None \<Rightarrow> (w, Some FileNotFoundError)
      | Some (JDict d) \<Rightarrow>
          (let (jb, err) = (case json_get d ''job'' of
                              Some (JDict jd) \<Rightarrow> from_dict_job (data_scenes w) (job w) jd
                            | _ \<Rightarrow> (job w, None)) in
           case err of
             Some e \<Rightarrow> (w\<lparr>job := jb\<rparr>, Some e)
           | None \<Rightarrow>
               (w\<lparr>job := jb,
                  rs_original := (case json_get d ''original'' of
                                    Some (JDict od) \<Rightarrow>
                                      (case json_get od ''job'' of
                                         Some (JDict oj) \<Rightarrow> oj
                                       | _ \<Rightarrow> rs_original w)
                                  | _ \<Rightarrow> rs_original w)\<rparr>, None))
      | Some _ \<Rightarrow> (w, Some AttributeError))"

text \<open>
  The part ``render job settings'' of \<^verbatim>\<open>RenderSettings.__init__\<close> when the lockfile is
  used: the settings are read from the lockfile and the job is marked for
  initialisation; any exception is caught, and the constructor returns. The argument
  is the session with the job that \<^verbatim>\<open>RenderJob.__init__\<close> has just created.
\<close>

definition resume_from_lockfile :: "world \<Rightarrow> world" where
  "resume_from_lockfile w =
     (case read_from_lockfile w of
        (w', None) \<Rightarrow> w'\<lparr>job := (job w')\<lparr>init := True\<rparr>\<rparr>
      | (w', Some e) \<Rightarrow> w')"


subsection \<open>The operator: \<^verbatim>\<open>cancel\<close> and \<^verbatim>\<open>modal\<close>\<close>











subsection \<open>Example sessions\<close>

text \<open>
  A job as \<^verbatim>\<open>RenderJob.__init__\<close> and \<^verbatim>\<open>RenderSettings.__init__\<close> leave it for a still
  image with the output path \<^verbatim>\<open>/out/quilt.png\<close> and a quilt of one row and two columns
  of views of one pixel each.
\<close>

definition example_job :: RenderJob where
  "example_job =
     \<lparr>init = True, add_suffix = False, scene = ''Scene'', animation = False,
      u_use_lockfile = False, use_multiview = False, u_state = INVOKE_RENDER,
      frame = 1, subframe = 0, view = 0, seed = None,
      view_width = 1, view_height = 1, rows = 1, columns = 2, total_views = 2,
      quilt_aspect = 0.75, view_cone = 40,
      lockfile_path = Some ''/tmp/scene.blend.lock'', outputpath = ''/out/quilt.png'',
      file_use_temp = False, file_temp_name = ''Quilt Render Result'',
      file_dirname = ''/out'', file_basename = ''quilt'', file_extension = ''.png'',
      file_quilt_suffix = None, file_force_keep = False,
      u_camera_temp_basename = ''_quilt_render_cam'', u_camera_temp = [],
      u_camera_active = None, u_camera_original = None,
      u_multiview_view_basename = ''quilt_v'',
      u_view_matrix = None, u_view_matrix_inv = None,
      u_view_images_pixels = [], u_quilt_image = None,
      cancel_sign = None, cancel_message = None\<rparr>"

text \<open>A camera at the origin with a field of view of 90 degrees.\<close>

definition example_camera :: camera where
  "example_camera =
     \<lparr>cam_name = ''Camera'', matrix_world = identity_matrix, scale = (1, 1, 1),
      location = (0, 0, 0), data_angle = pi / 2, data_shift_x = 0\<rparr>"

definition example_scene :: Scene where
  "example_scene =
     \<lparr>frame_start = 1, frame_end = 2, frame_current = 1, frame_subframe = 0,
      scene_camera = Some 0, resolution_x = 1, resolution_y = 1,
      render_engine = ''BLENDER_EEVEE'', cycles_seed = 0, cycles_use_animated_seed = False,
      render_views = [], lookingglassCamera = Some 0, focalPlane = 5,
      render_cancel = False, render_output = ''0''\<rparr>"

text \<open>
  A session with this job; the operator has its initial \<^verbatim>\<open>cancel_sign\<close> and
  \<^verbatim>\<open>cancel_message\<close> (the class attributes of \<^verbatim>\<open>LOOKINGGLASS_OT_render_quilt\<close>).
\<close>

definition example_world :: world where
  "example_world =
     \<lparr>job = example_job, sc = example_scene, objects = [Some example_camera],
      data_scenes = [''Scene''], files = Map.empty, lockfile = None,
      blend_filepath = ''/tmp/scene.blend'',
      op_animation = False, op_use_lockfile = False, op_discard_lockfile = False,
      op_cancel_sign = ''INFO'', op_cancel_message = ''Quilt rendering was cancelled.'',
      reports = [], rs_frame_step = 1, rs_engine = ''BLENDER_EEVEE'',
      rs_original = job_to_dict example_job\<rparr>"

text \<open>\<^verbatim>\<open>str\<close> of a float, for the examples (none of them enables the suffix).\<close>

definition example_str_float :: "real \<Rightarrow> string" where
  "example_str_float x = ''0.75''"

text \<open>
  The session when the second and last view of the still image has been rendered: both
  view files exist and both pixel buffers have been collected.
\<close>

definition example_tiles_world :: world where
  "example_tiles_world =
     example_world
       \<lparr>job := example_job\<lparr>init := False, u_state := COMPLETE_RENDER, view := 1,
                            u_view_images_pixels := [[1, 2, 3, 4], [5, 6, 7, 8]]\<rparr>,
        files := [''/out/quilt_v0.png'' \<mapsto> [1, 2, 3, 4], ''/out/quilt_v1.png'' \<mapsto> [5, 6, 7, 8],
                  ''/out/quilt.png'' \<mapsto> [0]]\<rparr>"

text \<open>The same session with a second buffer of three elements instead of four.\<close>

definition example_mismatch_world :: world where
  "example_mismatch_world =
     example_tiles_world
       \<lparr>job := (job example_tiles_world)\<lparr>u_view_images_pixels := [[1, 2, 3, 4], [5, 6, 7]]\<rparr>\<rparr>"

text \<open>
  The session of an animation of the frames 1 and 2 whose view files are kept
  (\<^verbatim>\<open>render_output\<close> is not \<^verbatim>\<open>'1'\<close>), when the last view of frame 1 has been rendered.
\<close>

definition example_animation_world :: world where
  "example_animation_world =
     example_world
       \<lparr>job := example_job\<lparr>animation := True, init := False, u_state := COMPLETE_RENDER,
                            view := 1,
                            u_view_images_pixels := [[1, 2, 3, 4], [5, 6, 7, 8]]\<rparr>,
        files := [''/out/quilt_f1_v0.png'' \<mapsto> [1, 2, 3, 4],
                  ''/out/quilt_f1_v1.png'' \<mapsto> [5, 6, 7, 8]],
        op_animation := True\<rparr>"

text \<open>
  The session of a job that is continued from a lockfile which recorded view 1 as the
  current view, while the file of view 0 is missing on disk.
\<close>

definition example_resume_world :: world where
  "example_resume_world =
     example_world
       \<lparr>job := example_job\<lparr>u_use_lockfile := True, view := 1\<rparr>,
        lockfile := Some (JDict []),
        op_use_lockfile := True\<rparr>"

text \<open>
  A session in which the camera chosen for the Looking Glass (object 0) is not the
  active camera of the scene (object 1, one unit to the right, with a lens shift), for
  a quilt of three views.
\<close>

definition example_two_cameras_world :: world where
  "example_two_cameras_world =
     example_world
       \<lparr>job := example_job\<lparr>columns := 3, total_views := 3, view := 1\<rparr>,
        sc := example_scene\<lparr>scene_camera := Some 1\<rparr>,
        objects := [Some example_camera,
                    Some (example_camera\<lparr>cam_name := ''Other'', location := (1, 0, 0),
                                           data_shift_x := 1 / 4\<rparr>)]\<rparr>"


section \<open>Properties\<close>

subsection \<open>Auxiliary facts\<close>

lemma ebind_Inr [simp]: "ebind (Inr x) f = f x"
  by (simp add: ebind_def)

lemma ebind_Inl [simp]: "ebind (Inl e) f = Inl e"
  by (simp add: ebind_def)

lemma str_nat_nonempty: "str_nat n \<noteq> []"
  by (subst str_nat.simps) simp

lemmas example_defs = example_world_def example_job_def example_scene_def example_camera_def
  example_str_float_def example_tiles_world_def example_mismatch_world_def

lemma str_int_small: "str_int 0 = ''0''" "str_int 1 = ''1''" "str_int 2 = ''2''"
  by (simp_all add: str_int_def str_nat.simps digit_char_def)

lemmas path_defs = view_filepath_def quilt_filepath_def get_quilt_suffix_def zfill_def
  os_path_join_def str_int_small

subsection \<open>The view offset\<close>

lemma offsetAngle_Inr:
  "tv \<noteq> 1 \<Longrightarrow>
   offsetAngle vw tv cone =
     Inr ((0.5 - real_of_int vw / real_of_int (tv - 1)) * radians cone)"
  by (simp add: offsetAngle_def py_truediv_def)

lemma offsetAngle_one: "offsetAngle vw 1 cone = Inl ZeroDivisionError"
  by (simp add: offsetAngle_def py_truediv_def)

lemma camera_offset_Inr:
  "tv \<noteq> 1 \<Longrightarrow>
   camera_offset d vw tv cone =
     Inr (d * tan ((0.5 - real_of_int vw / real_of_int (tv - 1)) * radians cone))"
  by (simp add: camera_offset_def offsetAngle_Inr)

lemma camera_offset_one: "camera_offset d vw 1 cone = Inl ZeroDivisionError"
  by (simp add: camera_offset_def offsetAngle_one)

lemma angle_bound:
  assumes n: "2 \<le> n" and v: "0 \<le> v" "v \<le> n - 1" and c: "0 < c" "c < 180"
  shows "\<bar>(0.5 - real_of_int v / real_of_int (n - 1)) * radians c\<bar> < pi / 2"
proof -
  define q where "q = real_of_int v / real_of_int (n - 1)"
  have "0 \<le> q" "q \<le> 1"
    using n v unfolding q_def by (simp_all add: divide_le_eq)
  then have h: "\<bar>0.5 - q\<bar> \<le> 1/2" by linarith
  have r: "0 < radians c" "radians c < pi" using c by (simp_all add: radians_def)
  have "\<bar>0.5 - q\<bar> * radians c \<le> 1/2 * radians c"
    using h r by (intro mult_right_mono) simp_all
  also have "\<dots> < 1/2 * pi" using r by simp
  finally show ?thesis using r unfolding q_def by (simp add: abs_mult)
qed

lemma offset_strict_mono:
  assumes n: "2 \<le> n" and v: "0 \<le> v" "v < w" "w \<le> n - 1"
    and c: "0 < c" "c < 180" and d: "0 < d"
  shows "d * tan ((0.5 - real_of_int w / real_of_int (n - 1)) * radians c)
       < d * tan ((0.5 - real_of_int v / real_of_int (n - 1)) * radians c)"
proof -
  define aw where "aw = (0.5 - real_of_int w / real_of_int (n - 1)) * radians c"
  define av where "av = (0.5 - real_of_int v / real_of_int (n - 1)) * radians c"
  have bw: "\<bar>aw\<bar> < pi/2" unfolding aw_def using angle_bound[of n w c] n v c by simp
  have bv: "\<bar>av\<bar> < pi/2" unfolding av_def using angle_bound[of n v c] n v c by simp
  have "real_of_int v / real_of_int (n - 1) < real_of_int w / real_of_int (n - 1)"
    using n v by (simp add: divide_strict_right_mono)
  moreover have "0 < radians c" using c by (simp add: radians_def)
  ultimately have lt: "aw < av" unfolding aw_def av_def by simp
  have "- (pi/2) < aw" "av < pi/2" using bw bv by linarith+
  with lt have "tan aw < tan av" by (intro tan_monotone)
  then show ?thesis using d unfolding aw_def av_def by simp
qed

lemma offset_middle:
  assumes "odd n" "n \<noteq> 1"
  shows "d * tan ((0.5 - real_of_int ((n - 1) div 2) / real_of_int (n - 1)) * radians c) = 0"
proof -
  from assms obtain k where k: "n = 2 * k + 1" by (auto elim: oddE)
  with assms have "k \<noteq> 0" by auto
  then have "real_of_int ((n - 1) div 2) / real_of_int (n - 1) = 1/2"
    using k by simp
  then show ?thesis by simp
qed

lemma offset_first_positive:
  assumes "0 < c" "c < 180" "0 < d"
  shows "0 < d * tan (radians c / 2)"
proof -
  have "0 < radians c / 2" "radians c / 2 < pi / 2"
    using assms by (simp_all add: radians_def)
  then have "0 < tan (radians c / 2)" by (rule tan_gt_zero)
  then show ?thesis using assms by simp
qed

text \<open>
  Claim C1, as the code has it: for \<open>total_views \<noteq> 1\<close> the offset angle of a view is
  \<open>(0.5 - view / (total_views - 1)) * radians view_cone\<close>; for \<open>total_views = 1\<close> there
  is no guard: the division raises \<^verbatim>\<open>ZeroDivisionError\<close>, so that neither an offset
  angle nor an offset nor a camera pose is computed.
\<close>

theorem C1_offset_angle:
  "(tv \<noteq> 1 \<longrightarrow>
      offsetAngle vw tv cone =
        Inr ((0.5 - real_of_int vw / real_of_int (tv - 1)) * radians cone))
   \<and> (tv = 1 \<longrightarrow>
        offsetAngle vw tv cone = Inl ZeroDivisionError
      \<and> camera_offset d vw tv cone = Inl ZeroDivisionError
      \<and> apply_position_and_shift vm vm_inv active original d cone vw tv
          = Inl ZeroDivisionError)"
  by (simp add: offsetAngle_Inr offsetAngle_one camera_offset_one apply_position_and_shift_def)

theorem C1_offset_angle_witness:
  "offsetAngle 1 5 40 = Inr ((0.5 - 1 / 4) * radians 40)
   \<and> offsetAngle 0 1 40 = Inl ZeroDivisionError
   \<and> camera_offset 5 0 1 40 = Inl ZeroDivisionError"
  using C1_offset_angle [of 5 1 40] C1_offset_angle [of 1 0 40 5] by simp

text \<open>
  Counterexample to C1 as stated: with \<open>total_views = 1\<close> the offset angle and the offset
  of view 0 are not 0, the computation raises.
\<close>

theorem C1_guard_counterexample:
  "offsetAngle 0 1 40 \<noteq> Inr 0 \<and> camera_offset 5 0 1 40 \<noteq> Inr 0"
  by (simp add: offsetAngle_one camera_offset_one)

text \<open>
  Claim C4, amended: for \<open>total_views \<ge> 2\<close>, the middle view of an odd number of views
  has offset 0, view 0 has the offset \<open>d * tan (radians cone / 2)\<close> and the last view
  has exactly its negative; if moreover the focal plane distance \<open>d\<close> is positive and the
  view cone lies strictly between 0 and 180 degrees, then the offset of view 0 is
  positive and the offset is strictly decreasing in the view index. Nothing is stated
  about the exact antisymmetry of the views in between, which depends on how
  \<open>0.5 - view / (total_views - 1)\<close> is rounded.
\<close>

theorem C4_offsets:
  assumes "2 \<le> n"
  shows "(odd n \<longrightarrow> camera_offset d ((n - 1) div 2) n cone = Inr 0)
       \<and> camera_offset d 0 n cone = Inr (d * tan (radians cone / 2))
       \<and> camera_offset d (n - 1) n cone = Inr (- (d * tan (radians cone / 2)))
       \<and> (0 < d \<and> 0 < cone \<and> cone < 180 \<longrightarrow>
            0 < d * tan (radians cone / 2)
          \<and> (\<forall>v w. 0 \<le> v \<and> v < w \<and> w \<le> n - 1 \<longrightarrow>
               (\<exists>a b. camera_offset d v n cone = Inr a
                    \<and> camera_offset d w n cone = Inr b \<and> b < a)))"
proof -
  from assms have n1: "n \<noteq> 1" by simp
  have mid: "odd n \<longrightarrow> camera_offset d ((n - 1) div 2) n cone = Inr 0"
    using n1 offset_middle [of n d cone] by (simp add: camera_offset_Inr)
  have first: "camera_offset d 0 n cone = Inr (d * tan (radians cone / 2))"
    using n1 by (simp add: camera_offset_Inr)
  have e: "(0.5 - real_of_int (n - 1) / real_of_int (n - 1)) * radians cone = - (radians cone / 2)"
    using n1 by simp
  have "camera_offset d (n - 1) n cone = Inr (d * tan (- (radians cone / 2)))"
    unfolding camera_offset_Inr [OF n1] e ..
  then have last: "camera_offset d (n - 1) n cone = Inr (- (d * tan (radians cone / 2)))"
    by (simp only: tan_minus mult_minus_right)
  have mono: "\<forall>v w. 0 \<le> v \<and> v < w \<and> w \<le> n - 1 \<longrightarrow>
               (\<exists>a b. camera_offset d v n cone = Inr a
                    \<and> camera_offset d w n cone = Inr b \<and> b < a)"
    if "0 < d" "0 < cone" "cone < 180"
    using n1 offset_strict_mono [OF assms _ _ _ that(2,3,1)] by (simp add: camera_offset_Inr)
  have pos: "0 < d * tan (radians cone / 2)" if "0 < d" "0 < cone" "cone < 180"
    by (rule offset_first_positive [OF that(2,3,1)])
  show ?thesis
    using mid first last mono pos by (intro conjI impI) simp_all
qed

theorem C4_offsets_witness:
  "(2::int) \<le> 45 \<and> odd (45::int) \<and> (0::real) < 5 \<and> (0::real) < 40 \<and> (40::real) < 180
   \<and> camera_offset 5 22 45 40 = Inr 0
   \<and> camera_offset 5 0 45 40 = Inr (5 * tan (radians 40 / 2))
   \<and> camera_offset 5 44 45 40 = Inr (- (5 * tan (radians 40 / 2)))
   \<and> 0 < 5 * tan (radians 40 / 2)
   \<and> (\<exists>a b. camera_offset 5 14 45 40 = Inr a \<and> camera_offset 5 15 45 40 = Inr b \<and> b < a)"
proof -
  have h: "(2::int) \<le> 45" by simp
  note c4 = C4_offsets [OF h, of 5 40]
  have m: "camera_offset 5 22 45 40 = Inr 0"
    using conjunct1 [OF c4] by simp
  have f: "camera_offset 5 0 45 40 = Inr (5 * tan (radians 40 / 2))"
    using conjunct1 [OF conjunct2 [OF c4]] .
  have l: "camera_offset 5 44 45 40 = Inr (- (5 * tan (radians 40 / 2)))"
    using conjunct1 [OF conjunct2 [OF conjunct2 [OF c4]]] by simp
  have r: "0 < 5 * tan (radians 40 / 2)
          \<and> (\<forall>v w. 0 \<le> v \<and> v < w \<and> w \<le> 45 - 1 \<longrightarrow>
               (\<exists>a b. camera_offset 5 v 45 40 = Inr a
                    \<and> camera_offset 5 w 45 40 = Inr b \<and> b < a))"
    using conjunct2 [OF conjunct2 [OF conjunct2 [OF c4]]] by simp
  have s: "\<exists>a b. camera_offset 5 14 45 40 = Inr a \<and> camera_offset 5 15 45 40 = Inr b \<and> b < a"
    using spec [OF spec [OF conjunct2 [OF r], of 14], of 15] by simp
  show ?thesis using m f l r s by simp
qed

text \<open>
  Counterexample to C4 as stated: with a view cone of 0 degrees and two views, the
  offset of view 1 is not smaller than the offset of view 0 (both are 0).
\<close>

theorem C4_strict_counterexample:
  "\<not> (\<exists>a b. camera_offset 5 0 2 0 = Inr a \<and> camera_offset 5 1 2 0 = Inr b \<and> b < a)"
  by (simp add: camera_offset_Inr radians_def)

subsection \<open>File paths\<close>

lemma os_path_join_append:
  "Y \<noteq> [] \<Longrightarrow> hd Y \<noteq> CHR ''/'' \<Longrightarrow>
   os_path_join a (X @ Y) =
     (if X = [] then (if a = [] \<or> last a = CHR ''/'' then a else a @ ''/'')
      else os_path_join a X) @ Y"
  by (auto simp: os_path_join_def hd_append)

lemma os_path_join_length_lt:
  "V \<noteq> [] \<Longrightarrow> hd V \<noteq> CHR ''/'' \<Longrightarrow>
   length (os_path_join a (B @ E)) < length (os_path_join a (B @ V @ E))"
  by (auto simp: os_path_join_def hd_append)

lemma view_path_decomp:
  "\<exists>pre. \<forall>v. view_filepath sf s j (Some v) fr =
      pre @ ''_v'' @ zfill (str_int v) (length (str_int (total_views j - 1))) @ file_extension j"
proof (cases "animation j")
  case True
  show ?thesis
    apply (rule exI[of _ "(let X = file_basename j @ ''_f'' @ zfill (str_int (case fr of None \<Rightarrow> frame j | Some f \<Rightarrow> f)) (length (str_int (frame_end s))) @ get_quilt_suffix sf j in (if X = [] then (if file_dirname j = [] \<or> last (file_dirname j) = CHR ''/'' then file_dirname j else file_dirname j @ ''/'')
      else os_path_join (file_dirname j) X))"])
    using True os_path_join_append[of "''_v'' @ zfill (str_int v) (length (str_int (total_views j - 1))) @ file_extension j" "file_dirname j" "file_basename j @ ''_f'' @ zfill (str_int (case fr of None \<Rightarrow> frame j | Some f \<Rightarrow> f)) (length (str_int (frame_end s))) @ get_quilt_suffix sf j" for v]
    by (simp add: view_filepath_def Let_def)
next
  case False
  show ?thesis
    apply (rule exI[of _ "(let X = file_basename j @ get_quilt_suffix sf j in (if X = [] then (if file_dirname j = [] \<or> last (file_dirname j) = CHR ''/'' then file_dirname j else file_dirname j @ ''/'')
      else os_path_join (file_dirname j) X))"])
    using False os_path_join_append[of "''_v'' @ zfill (str_int v) (length (str_int (total_views j - 1))) @ file_extension j" "file_dirname j" "file_basename j @ get_quilt_suffix sf j" for v]
    by (simp add: view_filepath_def Let_def)
qed

lemma view_ne_quilt: "view_filepath sf s j va fr \<noteq> quilt_filepath sf s j fr"
proof -
  define Z where "Z = zfill (str_int (case va of None \<Rightarrow> view j | Some v \<Rightarrow> v)) (length (str_int (total_views j - 1)))"
  define B where "B = (if animation j then file_basename j @ ''_f'' @ zfill (str_int (case fr of None \<Rightarrow> frame j | Some f \<Rightarrow> f)) (length (str_int (frame_end s))) @ get_quilt_suffix sf j else file_basename j @ get_quilt_suffix sf j)"
  have q: "quilt_filepath sf s j fr = os_path_join (file_dirname j) (B @ file_extension j)"
    by (simp add: quilt_filepath_def B_def Let_def)
  have v: "view_filepath sf s j va fr = os_path_join (file_dirname j) (B @ (''_v'' @ Z) @ file_extension j)"
    by (simp add: view_filepath_def B_def Z_def Let_def)
  have "length (quilt_filepath sf s j fr) < length (view_filepath sf s j va fr)"
    unfolding q v by (rule os_path_join_length_lt) simp_all
  then show ?thesis by auto
qed

text \<open>
  Claim C9: the path functions are functions of the job's naming attributes (directory,
  base name, extension, suffix option, columns, rows, aspect, animation flag, number of
  views), of the end frame of the scene and of the frame and view asked for: two calls
  that agree on these return the same string, whatever else differs in the job or in
  the scene. The view paths of one job and frame are a common prefix, the segment
  \<^verbatim>\<open>_v\<close> with the zero-padded view index, and the extension.
\<close>

theorem C9_paths:
  "(file_dirname j = file_dirname j' \<and> file_basename j = file_basename j'
      \<and> file_extension j = file_extension j' \<and> add_suffix j = add_suffix j'
      \<and> columns j = columns j' \<and> rows j = rows j' \<and> quilt_aspect j = quilt_aspect j'
      \<and> animation j = animation j' \<and> total_views j = total_views j'
      \<and> frame_end s = frame_end s' \<longrightarrow>
        quilt_filepath sf s j (Some fr) = quilt_filepath sf s' j' (Some fr)
      \<and> view_filepath sf s j (Some v) (Some fr) = view_filepath sf s' j' (Some v) (Some fr))
   \<and> quilt_filepath sf s j None = quilt_filepath sf s j (Some (frame j))
   \<and> view_filepath sf s j None fa = view_filepath sf s j (Some (view j)) fa
   \<and> view_filepath sf s j va None = view_filepath sf s j va (Some (frame j))
   \<and> (\<exists>pre. \<forall>v. view_filepath sf s j (Some v) fa =
          pre @ ''_v'' @ zfill (str_int v) (length (str_int (total_views j - 1)))
              @ file_extension j)"
proof -
  have a: "file_dirname j = file_dirname j' \<and> file_basename j = file_basename j'
      \<and> file_extension j = file_extension j' \<and> add_suffix j = add_suffix j'
      \<and> columns j = columns j' \<and> rows j = rows j' \<and> quilt_aspect j = quilt_aspect j'
      \<and> animation j = animation j' \<and> total_views j = total_views j'
      \<and> frame_end s = frame_end s' \<longrightarrow>
        quilt_filepath sf s j (Some fr) = quilt_filepath sf s' j' (Some fr)
      \<and> view_filepath sf s j (Some v) (Some fr) = view_filepath sf s' j' (Some v) (Some fr)"
    by (simp add: quilt_filepath_def view_filepath_def get_quilt_suffix_def)
  have b: "quilt_filepath sf s j None = quilt_filepath sf s j (Some (frame j))"
    by (simp add: quilt_filepath_def)
  have c: "view_filepath sf s j None fa = view_filepath sf s j (Some (view j)) fa"
    by (simp add: view_filepath_def)
  have d: "view_filepath sf s j va None = view_filepath sf s j va (Some (frame j))"
    by (simp add: view_filepath_def)
  show ?thesis
    by (rule conjI [OF a conjI [OF b conjI [OF c conjI [OF d view_path_decomp]]]])
qed

theorem C9_paths_witness:
  "file_dirname example_job = file_dirname (job example_tiles_world)
   \<and> frame_end example_scene = frame_end (sc example_tiles_world)
   \<and> u_state example_job \<noteq> u_state (job example_tiles_world)
   \<and> view example_job \<noteq> view (job example_tiles_world)
   \<and> quilt_filepath example_str_float example_scene example_job (Some 1)
       = quilt_filepath example_str_float (sc example_tiles_world) (job example_tiles_world) (Some 1)
   \<and> view_filepath example_str_float example_scene example_job (Some 1) (Some 1)
       = view_filepath example_str_float (sc example_tiles_world) (job example_tiles_world) (Some 1) (Some 1)
   \<and> view_filepath example_str_float example_scene example_job (Some 1) (Some 1) = ''/out/quilt_v1.png''"
proof -
  let ?j = example_job and ?j' = "job example_tiles_world"
  have h: "file_dirname ?j = file_dirname ?j' \<and> file_basename ?j = file_basename ?j'
      \<and> file_extension ?j = file_extension ?j' \<and> add_suffix ?j = add_suffix ?j'
      \<and> columns ?j = columns ?j' \<and> rows ?j = rows ?j' \<and> quilt_aspect ?j = quilt_aspect ?j'
      \<and> animation ?j = animation ?j' \<and> total_views ?j = total_views ?j'
      \<and> frame_end example_scene = frame_end (sc example_tiles_world)"
    by (simp add: example_defs)
  have d: "u_state ?j \<noteq> u_state ?j'" "view ?j \<noteq> view ?j'" by (simp_all add: example_defs)
  have p: "view_filepath example_str_float example_scene example_job (Some 1) (Some 1) = ''/out/quilt_v1.png''"
    by (simp add: example_defs path_defs)
  from C9_paths [of ?j ?j' example_scene "sc example_tiles_world" example_str_float 1 1] h
  have "quilt_filepath example_str_float example_scene ?j (Some 1)
          = quilt_filepath example_str_float (sc example_tiles_world) ?j' (Some 1)
      \<and> view_filepath example_str_float example_scene ?j (Some 1) (Some 1)
          = view_filepath example_str_float (sc example_tiles_world) ?j' (Some 1) (Some 1)"
    by blast
  then show ?thesis using h d p by simp
qed


subsection \<open>Deleting the files of a frame\<close>

lemma remove_if_file_eq: "remove_if_file fs p = fs(p := None)"
  by (auto simp: remove_if_file_def fun_eq_iff)

lemma fold_remove:
  "fold (\<lambda>v fs. fs(g v := None)) vs fs = (\<lambda>p. if p \<in> g ` set vs then None else fs p)"
  by (induction vs arbitrary: fs) (auto simp: fun_eq_iff)

lemma set_py_range: "set (py_range n) = {v. 0 \<le> v \<and> v < n}"
proof (rule set_eqI)
  fix v
  show "v \<in> set (py_range n) \<longleftrightarrow> v \<in> {v. 0 \<le> v \<and> v < n}"
  proof
    assume "v \<in> set (py_range n)"
    then obtain k where "k < nat n" "v = int k" by (auto simp: py_range_def)
    then show "v \<in> {v. 0 \<le> v \<and> v < n}" by simp
  next
    assume "v \<in> {v. 0 \<le> v \<and> v < n}"
    then have "nat v < nat n" "v = int (nat v)" by simp_all
    then have "v \<in> int ` {0..<nat n}" by (intro image_eqI [of _ _ "nat v"]) simp_all
    then show "v \<in> set (py_range n)" by (simp add: py_range_def)
  qed
qed

lemma files_delete_files:
  "files (delete_files sf w fr) p =
     (if (\<exists>v. 0 \<le> v \<and> v < total_views (job w) \<and> p = view_filepath sf (sc w) (job w) (Some v) fr)
         \<or> (snd (os_path_split (outputpath (job w))) = [] \<and> \<not> animation (job w)
             \<and> p = quilt_filepath sf (sc w) (job w) fr)
      then None else files w p)"
proof -
  define g where "g = (\<lambda>v. view_filepath sf (sc w) (job w) (Some v) fr)"
  define fs1 where "fs1 = fold (\<lambda>vw fs. fs(g vw := None)) (py_range (total_views (job w))) (files w)"
  have fs1: "fs1 q = (if (\<exists>v. 0 \<le> v \<and> v < total_views (job w) \<and> q = g v) then None else files w q)" for q
    unfolding fs1_def fold_remove set_py_range by (simp add: image_iff) 
  define e where "e \<longleftrightarrow> snd (os_path_split (outputpath (job w))) = []"
  define a where "a \<longleftrightarrow> animation (job w)"
  define q where "q = quilt_filepath sf (sc w) (job w) fr"
  define V where "V \<longleftrightarrow> (\<exists>v. 0 \<le> v \<and> v < total_views (job w) \<and> p = g v)"
  have d: "files (delete_files sf w fr) p = (if e \<and> \<not> a then (fs1(q := None)) p else fs1 p)"
    by (simp add: delete_files_def Let_def remove_if_file_eq fs1_def g_def e_def a_def q_def)
  have f: "fs1 p = (if V then None else files w p)"
    unfolding V_def by (rule fs1)
  have "files (delete_files sf w fr) p = (if V \<or> (e \<and> \<not> a \<and> p = q) then None else files w p)"
    unfolding d by (cases e; cases a; cases V) (simp_all add: f)
  then show ?thesis unfolding V_def e_def a_def q_def g_def .
qed


text \<open>
  Claim C10: \<^verbatim>\<open>delete_files\<close> changes the files on disk only by removing files; a file
  that is removed is a view file of the given frame with an index below
  \<open>total_views\<close>, or it is the quilt file and then the output path of the job has an empty
  base name and the job is not an animation. All view files of the frame are removed.
  When the output base name is not empty or the job is an animation, the quilt file is as
  before; otherwise it is removed. The list of pixel buffers is empty afterwards.
\<close>

theorem C10_delete_files:
  "(\<forall>p. files (delete_files sf w fr) p \<noteq> files w p \<longrightarrow>
        (\<exists>v. 0 \<le> v \<and> v < total_views (job w) \<and> p = view_filepath sf (sc w) (job w) (Some v) fr)
      \<or> (snd (os_path_split (outputpath (job w))) = [] \<and> \<not> animation (job w)
          \<and> p = quilt_filepath sf (sc w) (job w) fr))
   \<and> (\<forall>p. files (delete_files sf w fr) p \<noteq> files w p \<longrightarrow> files (delete_files sf w fr) p = None)
   \<and> (\<forall>v. 0 \<le> v \<and> v < total_views (job w) \<longrightarrow>
         files (delete_files sf w fr) (view_filepath sf (sc w) (job w) (Some v) fr) = None)
   \<and> (snd (os_path_split (outputpath (job w))) \<noteq> [] \<or> animation (job w) \<longrightarrow>
         files (delete_files sf w fr) (quilt_filepath sf (sc w) (job w) fr)
           = files w (quilt_filepath sf (sc w) (job w) fr))
   \<and> (snd (os_path_split (outputpath (job w))) = [] \<and> \<not> animation (job w) \<longrightarrow>
         files (delete_files sf w fr) (quilt_filepath sf (sc w) (job w) fr) = None)
   \<and> u_view_images_pixels (job (delete_files sf w fr)) = []"
proof -
  let ?w' = "delete_files sf w fr"
  let ?q = "quilt_filepath sf (sc w) (job w) fr"
  have q: "?q \<noteq> view_filepath sf (sc w) (job w) (Some v) fr" for v
    using view_ne_quilt[of sf "sc w" "job w" "Some v" fr] by simp
  have c1: "\<forall>p. files ?w' p \<noteq> files w p \<longrightarrow>
        (\<exists>v. 0 \<le> v \<and> v < total_views (job w) \<and> p = view_filepath sf (sc w) (job w) (Some v) fr)
      \<or> (snd (os_path_split (outputpath (job w))) = [] \<and> \<not> animation (job w) \<and> p = ?q)"
    by (simp add: files_delete_files)
  have c2: "\<forall>p. files ?w' p \<noteq> files w p \<longrightarrow> files ?w' p = None"
    by (simp add: files_delete_files)
  have c3: "\<forall>v. 0 \<le> v \<and> v < total_views (job w) \<longrightarrow>
         files ?w' (view_filepath sf (sc w) (job w) (Some v) fr) = None"
    unfolding files_delete_files by (intro allI impI if_P disjI1) blast
  have c4: "snd (os_path_split (outputpath (job w))) \<noteq> [] \<or> animation (job w) \<longrightarrow>
         files ?w' ?q = files w ?q"
    using q by (simp add: files_delete_files)
  have c5: "snd (os_path_split (outputpath (job w))) = [] \<and> \<not> animation (job w) \<longrightarrow>
         files ?w' ?q = None"
    by (simp add: files_delete_files)
  have c6: "u_view_images_pixels (job ?w') = []"
    by (simp add: delete_files_def Let_def)
  show ?thesis
    by (rule conjI [OF c1 conjI [OF c2 conjI [OF c3 conjI [OF c4 conjI [OF c5 c6]]]]])
qed

theorem C10_delete_files_witness:
  "(0::int) \<le> 1 \<and> 1 < total_views (job example_tiles_world)
   \<and> snd (os_path_split (outputpath (job example_tiles_world))) \<noteq> []
   \<and> files example_tiles_world ''/out/quilt_v1.png'' = Some [5, 6, 7, 8]
   \<and> files (delete_files example_str_float example_tiles_world None) ''/out/quilt_v1.png'' = None
   \<and> files (delete_files example_str_float example_tiles_world None) ''/out/quilt.png'' = Some [0]
   \<and> u_view_images_pixels (job (delete_files example_str_float example_tiles_world None)) = []"
proof -
  let ?w = example_tiles_world and ?sf = example_str_float
  note c10 = C10_delete_files [of ?sf ?w None]
  have v: "view_filepath ?sf (sc ?w) (job ?w) (Some 1) None = ''/out/quilt_v1.png''"
    by (simp add: example_defs path_defs)
  have q: "quilt_filepath ?sf (sc ?w) (job ?w) None = ''/out/quilt.png''"
    by (simp add: example_defs path_defs)
  have h1: "(0::int) \<le> 1 \<and> 1 < total_views (job ?w)" by (simp add: example_defs)
  have h2: "snd (os_path_split (outputpath (job ?w))) \<noteq> []"
    by (simp add: example_defs os_path_split_def)
  have f: "files ?w ''/out/quilt_v1.png'' = Some [5, 6, 7, 8]" "files ?w ''/out/quilt.png'' = Some [0]"
    by (simp_all add: example_defs)
  have a: "files (delete_files ?sf ?w None) ''/out/quilt_v1.png'' = None"
    using conjunct1 [OF conjunct2 [OF conjunct2 [OF c10]], rule_format, of 1] h1 v by simp
  have b: "files (delete_files ?sf ?w None) ''/out/quilt.png'' = Some [0]"
    using conjunct1 [OF conjunct2 [OF conjunct2 [OF conjunct2 [OF c10]]]] h2 q f by simp
  have c: "u_view_images_pixels (job (delete_files ?sf ?w None)) = []"
    using c10 by blast
  show ?thesis using h1 h2 f a b c by simp
qed


subsection \<open>Quilt assembly\<close>

lemma length_concat_uniform:
  "(\<forall>xs \<in> set xss. length xs = m) \<Longrightarrow> length (concat xss) = length xss * m"
  by (induction xss) simp_all

lemma nth_concat_uniform:
  "(\<forall>xs \<in> set xss. length xs = m) \<Longrightarrow> i < length xss \<Longrightarrow> j < m \<Longrightarrow>
   concat xss ! (i * m + j) = xss ! i ! j"
proof (induction xss arbitrary: i)
  case Nil
  then show ?case by simp
next
  case (Cons xs xss)
  show ?case
  proof (cases i)
    case 0
    then show ?thesis using Cons.prems by (simp add: nth_append)
  next
    case (Suc i')
    have "concat (xs # xss) ! (i * m + j) = concat xss ! (i' * m + j)"
      using Cons.prems Suc by (simp add: nth_append)
    also have "\<dots> = xss ! i' ! j"
      using Cons.prems Suc by (intro Cons.IH) simp_all
    finally show ?thesis using Suc by simp
  qed
qed

lemma emap_Inr:
  "(\<forall>x \<in> set xs. f x = Inr (g x)) \<Longrightarrow> emap f xs = Inr (map g xs)"
  by (induction xs) simp_all

lemma sum_list_const: "(\<forall>x \<in> set xs. f x = c) \<Longrightarrow> sum_list (map f xs) = length xs * c"
  by (induction xs) simp_all

lemma idx_bound: "i < n \<Longrightarrow> j < m \<Longrightarrow> i * m + j < n * (m::nat)"
proof -
  assume a: "i < n" "j < m"
  then have "i * m + j < i * m + m" by simp
  also have "\<dots> = (Suc i) * m" by simp
  also have "\<dots> \<le> n * m" using a by (intro mult_le_mono1) simp
  finally show ?thesis .
qed

lemma length_seg: "length buf = Y * m \<Longrightarrow> y < Y \<Longrightarrow> length (take m (drop (y * m) buf)) = m"
proof -
  assume a: "length buf = Y * m" "y < Y"
  have "y * m + m = Suc y * m" by simp
  also have "\<dots> \<le> Y * m" using a by (intro mult_le_mono1) simp
  finally show ?thesis using a by simp
qed

lemma nth_seg: "length buf = Y * m \<Longrightarrow> y < Y \<Longrightarrow> j < m \<Longrightarrow> take m (drop (y * m) buf) ! j = buf ! (y * m + j)"
  using idx_bound[of y Y j m] by simp

lemma tiles_layout:
  fixes T :: "nat \<Rightarrow> nat \<Rightarrow> real list"
  assumes len: "\<And>r c. r < R \<Longrightarrow> c < C \<Longrightarrow> length (T r c) = Y * m"
  defines "rowline \<equiv> \<lambda>r y. concat (map (\<lambda>c. take m (drop (y * m) (T r c))) [0..<C])"
  defines "rowblock \<equiv> \<lambda>r. concat (map (rowline r) [0..<Y])"
  defines "Q \<equiv> concat (map rowblock [0..<R])"
  shows "length Q = R * (Y * (C * m))"
    and "r < R \<Longrightarrow> y < Y \<Longrightarrow> c < C \<Longrightarrow> j < m \<Longrightarrow>
         Q ! (r * (Y * (C * m)) + (y * (C * m) + (c * m + j))) = T r c ! (y * m + j)"
proof -
  have ls: "length (take m (drop (y * m) (T r c))) = m" if "r < R" "y < Y" "c < C" for r y c
    using length_seg [OF len [OF that(1,3)] that(2)] .
  have l1: "length (rowline r y) = C * m" if "r < R" "y < Y" for r y
    unfolding rowline_def using that ls
    by (subst length_concat_uniform[where m = m]) auto
  have l2: "length (rowblock r) = Y * (C * m)" if "r < R" for r
    unfolding rowblock_def using that l1
    by (subst length_concat_uniform[where m = "C * m"]) auto
  show "length Q = R * (Y * (C * m))"
    unfolding Q_def using l2
    by (subst length_concat_uniform[where m = "Y * (C * m)"]) auto
  assume a: "r < R" "y < Y" "c < C" "j < m"
  have b1: "c * m + j < C * m" using a by (intro idx_bound)
  have b2: "y * (C * m) + (c * m + j) < Y * (C * m)" using a b1 by (intro idx_bound)
  have "Q ! (r * (Y * (C * m)) + (y * (C * m) + (c * m + j)))
      = map rowblock [0..<R] ! r ! (y * (C * m) + (c * m + j))"
    unfolding Q_def using a b2 l2
    by (intro nth_concat_uniform) auto
  also have "\<dots> = rowblock r ! (y * (C * m) + (c * m + j))" using a by simp
  also have "\<dots> = map (rowline r) [0..<Y] ! y ! (c * m + j)"
    unfolding rowblock_def using a b1 l1
    by (intro nth_concat_uniform) auto
  also have "\<dots> = rowline r y ! (c * m + j)" using a by simp
  also have "\<dots> = map (\<lambda>c. take m (drop (y * m) (T r c))) [0..<C] ! c ! j"
    unfolding rowline_def using a ls
    by (intro nth_concat_uniform) auto
  also have "\<dots> = take m (drop (y * m) (T r c)) ! j" using a by simp
  also have "\<dots> = T r c ! (y * m + j)" using a len by (intro nth_seg) auto
  finally show "Q ! (r * (Y * (C * m)) + (y * (C * m) + (c * m + j))) = T r c ! (y * m + j)" .
qed

lemma hstack_Inr:
  "arrs \<noteq> [] \<Longrightarrow> (\<forall>b \<in> set arrs. dim0 b = h \<and> dim2 b = d) \<Longrightarrow>
   hstack arrs = Inr \<lparr>dim0 = h, dim1 = sum_list (map dim1 arrs), dim2 = d,
                     elems = concat (map (\<lambda>y. concat (map (\<lambda>b. row_of b y) arrs)) [0..<h])\<rparr>"
  by (cases arrs) (auto simp: hstack_def)

lemma vstack_Inr:
  "arrs \<noteq> [] \<Longrightarrow> (\<forall>b \<in> set arrs. dim1 b = w \<and> dim2 b = d) \<Longrightarrow>
   vstack arrs = Inr \<lparr>dim0 = sum_list (map dim0 arrs), dim1 = w, dim2 = d,
                     elems = concat (map elems arrs)\<rparr>"
  by (cases arrs) (auto simp: vstack_def)

lemma emap_range_Inr:
  assumes "\<And>i. i < n \<Longrightarrow> f (int i) = Inr (g i)"
  shows "emap f (py_range (int n)) = Inr (map g [0..<n])"
proof -
  have "emap f (map int [0..<n]) = Inr (map (\<lambda>i. g (nat i)) (map int [0..<n]))"
    using assms by (intro emap_Inr) auto
  then show ?thesis by (simp add: py_range_def comp_def)
qed

lemma quilt_pixels_Inr:
  fixes s :: Scene and jb :: RenderJob
  defines "X \<equiv> resolution_x s" and "Y \<equiv> resolution_y s"
  defines "R \<equiv> nat (rows jb)" and "C \<equiv> nat (columns jb)"
  defines "bufs \<equiv> u_view_images_pixels jb"
  assumes pos: "0 < rows jb" "0 < columns jb"
    and complete: "R * C \<le> length bufs"
    and sizes: "\<And>i. i < R * C \<Longrightarrow> length (bufs ! i) = Y * (X * 4)"
  shows "quilt_pixels s jb =
     Inr (concat (map (\<lambda>r. concat (map (\<lambda>y. concat (map (\<lambda>c.
            take (X * 4) (drop (y * (X * 4)) (bufs ! (r * C + c)))) [0..<C])) [0..<Y])) [0..<R]))"
proof -
  define arr where "arr = (\<lambda>r c. \<lparr>dim0 = Y, dim1 = X, dim2 = 4, elems = bufs ! (r * C + c)\<rparr>)"
  define rowarr where "rowarr = (\<lambda>r. \<lparr>dim0 = Y, dim1 = C * X, dim2 = 4,
     elems = concat (map (\<lambda>y. concat (map (\<lambda>c. take (X * 4) (drop (y * (X * 4)) (bufs ! (r * C + c)))) [0..<C])) [0..<Y])\<rparr>)"
  have Cpos: "0 < C" and Rpos: "0 < R" using pos by (simp_all add: C_def R_def)
  have cols: "columns jb = int C" and rws: "rows jb = int R" using pos by (simp_all add: C_def R_def)
  have vp: "view_pixels s jb (int r) (int c) = Inr (arr r c)" if "r < R" "c < C" for r c
  proof -
    have lt: "r * C + c < R * C" using that by (rule idx_bound)
    have i: "int r * int C + int c = int (r * C + c)" by simp
    have n: "nat (int r * int C + int c) = r * C + c" unfolding i by (rule nat_int)
    have "py_index bufs (int r * columns jb + int c) = Inr (bufs ! (r * C + c))"
      unfolding cols py_index_def using lt complete by (simp add: n)
    moreover have "length (bufs ! (r * C + c)) = Y * X * 4" using sizes [OF lt] by simp
    ultimately show ?thesis
      by (simp add: view_pixels_def bufs_def [symmetric] reshape3_def arr_def X_def Y_def)
  qed
  have hrow: "ebind (emap (view_pixels s jb (int r)) (py_range (columns jb))) hstack = Inr (rowarr r)"
    if "r < R" for r
  proof -
    have e: "emap (view_pixels s jb (int r)) (py_range (columns jb)) = Inr (map (arr r) [0..<C])"
      unfolding cols using vp [OF that] by (intro emap_range_Inr) simp
    have ne: "map (arr r) [0..<C] \<noteq> []" using Cpos by simp
    have d: "\<forall>b \<in> set (map (arr r) [0..<C]). dim0 b = Y \<and> dim2 b = 4" by (simp add: arr_def)
    have sm: "sum_list (map dim1 (map (arr r) [0..<C])) = C * X"
      using sum_list_const [of "[0..<C]" "\<lambda>c. dim1 (arr r c)" X] by (simp add: arr_def comp_def)
    show ?thesis
      unfolding e ebind_Inr hstack_Inr [OF ne d] sm
      by (simp add: rowarr_def row_of_def arr_def comp_def)
  qed
  have vs: "emap (\<lambda>row. ebind (emap (view_pixels s jb row) (py_range (columns jb))) hstack)
                 (py_range (rows jb)) = Inr (map rowarr [0..<R])"
    unfolding rws using hrow by (intro emap_range_Inr) simp
  have ne: "map rowarr [0..<R] \<noteq> []" using Rpos by simp
  have d: "\<forall>b \<in> set (map rowarr [0..<R]). dim1 b = C * X \<and> dim2 b = 4" by (simp add: rowarr_def)
  have len: "length (concat (map (\<lambda>r. concat (map (\<lambda>y. concat (map (\<lambda>c.
            take (X * 4) (drop (y * (X * 4)) (bufs ! (r * C + c)))) [0..<C])) [0..<Y])) [0..<R]))
         = R * (Y * (C * (X * 4)))"
    by (rule tiles_layout(1) [where T = "\<lambda>r c. bufs ! (r * C + c)"])
       (use sizes idx_bound in auto)
  have sz: "int (R * (Y * (C * (X * 4)))) = columns jb * rows jb * (int (resolution_x s) * int (resolution_y s) * 4)"
    unfolding cols rws X_def Y_def by simp
  have el: "concat (map elems (map rowarr [0..<R])) = concat (map (\<lambda>r. concat (map (\<lambda>y. concat (map (\<lambda>c.
            take (X * 4) (drop (y * (X * 4)) (bufs ! (r * C + c)))) [0..<C])) [0..<Y])) [0..<R])"
    by (simp add: rowarr_def comp_def)
  define Q where "Q = concat (map (\<lambda>r. concat (map (\<lambda>y. concat (map (\<lambda>c.
            take (X * 4) (drop (y * (X * 4)) (bufs ! (r * C + c)))) [0..<C])) [0..<Y])) [0..<R])"
  define n where "n = columns jb * rows jb * (int (resolution_x s) * int (resolution_y s) * 4)"
  have lq: "int (length Q) = n" unfolding Q_def n_def len sz ..
  have v: "vstack (map rowarr [0..<R]) =
      Inr \<lparr>dim0 = sum_list (map dim0 (map rowarr [0..<R])), dim1 = C * X, dim2 = 4, elems = Q\<rparr>"
    unfolding vstack_Inr [OF ne d] el Q_def ..
  have "quilt_pixels s jb = Inr Q"
    unfolding quilt_pixels_def vs ebind_Inr v n_def [symmetric]
    using lq by (simp add: reshape1_def)
  then show ?thesis unfolding Q_def .
qed



text \<open>
  Claim C5: for a quilt of at least one row and one column, a list of pixel buffers that
  holds the \<open>rows * columns\<close> views, each of \<open>width * height * 4\<close> elements, is assembled
  into one buffer of \<open>(columns * width) * (rows * height) * 4\<close> elements, in which the
  element of channel \<open>k\<close> at line \<open>row * height + y\<close> and column \<open>column * width + x\<close>
  is the element of channel \<open>k\<close> at line \<open>y\<close> and column \<open>x\<close> of the buffer at position
  \<open>row * columns + column\<close>: the tiles of a row stand side by side from left to right, and
  the rows follow each other with row 0 first. When the file of the current view
  exists, \<^verbatim>\<open>assemble_quilt\<close> stores this buffer as the quilt image and in the quilt file.
\<close>

theorem C5_quilt_layout:
  assumes pos: "0 < rows (job w)" "0 < columns (job w)"
    and complete: "nat (rows (job w)) * nat (columns (job w)) \<le> length (u_view_images_pixels (job w))"
    and sizes: "\<forall>i < nat (rows (job w)) * nat (columns (job w)).
                  length (u_view_images_pixels (job w) ! i)
                    = resolution_x (sc w) * resolution_y (sc w) * 4"
  shows "\<exists>q. quilt_pixels (sc w) (job w) = Inr q
      \<and> length q = (nat (columns (job w)) * resolution_x (sc w))
                   * (nat (rows (job w)) * resolution_y (sc w)) * 4
      \<and> (\<forall>r c y x k. r < nat (rows (job w)) \<and> c < nat (columns (job w))
            \<and> y < resolution_y (sc w) \<and> x < resolution_x (sc w) \<and> k < 4 \<longrightarrow>
            q ! (((r * resolution_y (sc w) + y) * (nat (columns (job w)) * resolution_x (sc w))
                  + (c * resolution_x (sc w) + x)) * 4 + k)
            = u_view_images_pixels (job w) ! (r * nat (columns (job w)) + c)
                ! ((y * resolution_x (sc w) + x) * 4 + k))
      \<and> (view_filepath sf (sc w) (job w) None None \<in> dom (files w) \<longrightarrow>
           (\<exists>w'. assemble_quilt sf w = Inr w'
                \<and> u_quilt_image (job w') = Some q
                \<and> files w' (quilt_filepath sf (sc w) (job w) None) = Some q))"
proof -
  define X where "X = resolution_x (sc w)"
  define Y where "Y = resolution_y (sc w)"
  define R where "R = nat (rows (job w))"
  define C where "C = nat (columns (job w))"
  define bufs where "bufs = u_view_images_pixels (job w)"
  define Q where "Q = concat (map (\<lambda>r. concat (map (\<lambda>y. concat (map (\<lambda>c.
            take (X * 4) (drop (y * (X * 4)) (bufs ! (r * C + c)))) [0..<C])) [0..<Y])) [0..<R])"
  have sz: "length (bufs ! i) = Y * (X * 4)" if "i < R * C" for i
    using sizes that unfolding R_def C_def bufs_def X_def Y_def by (simp add: mult.commute)
  have q: "quilt_pixels (sc w) (job w) = Inr Q"
    unfolding Q_def X_def Y_def R_def C_def bufs_def
    by (rule quilt_pixels_Inr [OF pos complete]) (use sz in \<open>simp add: R_def C_def bufs_def X_def Y_def\<close>)
  have tl: "\<And>r c. r < R \<Longrightarrow> c < C \<Longrightarrow> length (bufs ! (r * C + c)) = Y * (X * 4)"
    using sz idx_bound by simp
  have "length Q = R * (Y * (C * (X * 4)))"
    unfolding Q_def by (rule tiles_layout(1) [where T = "\<lambda>r c. bufs ! (r * C + c)", OF tl])
  then have len: "length Q = (C * X) * (R * Y) * 4" by simp
  have idx: "Q ! (((r * Y + y) * (C * X) + (c * X + x)) * 4 + k)
           = bufs ! (r * C + c) ! ((y * X + x) * 4 + k)"
    if "r < R" "c < C" "y < Y" "x < X" "k < 4" for r c y x k
  proof -
    have j: "x * 4 + k < X * 4" using that by (intro idx_bound)
    have e1: "((r * Y + y) * (C * X) + (c * X + x)) * 4 + k
            = r * (Y * (C * (X * 4))) + (y * (C * (X * 4)) + (c * (X * 4) + (x * 4 + k)))"
      by (simp add: algebra_simps)
    have e2: "(y * X + x) * 4 + k = y * (X * 4) + (x * 4 + k)" by (simp add: algebra_simps)
    show ?thesis
      unfolding e1 e2 Q_def
      by (rule tiles_layout(2) [where T = "\<lambda>r c. bufs ! (r * C + c)", OF tl that(1,3,2) j])
  qed
  have asm: "view_filepath sf (sc w) (job w) None None \<in> dom (files w) \<longrightarrow>
           (\<exists>w'. assemble_quilt sf w = Inr w'
                \<and> u_quilt_image (job w') = Some Q
                \<and> files w' (quilt_filepath sf (sc w) (job w) None) = Some Q)"
    by (simp add: assemble_quilt_def q)
  show ?thesis
    using q len idx asm unfolding X_def Y_def R_def C_def bufs_def by blast
qed

theorem C5_quilt_layout_witness:
  "0 < rows (job example_tiles_world) \<and> 0 < columns (job example_tiles_world)
   \<and> (\<exists>q. quilt_pixels (sc example_tiles_world) (job example_tiles_world) = Inr q
          \<and> length q = 8 \<and> q ! 0 = 1 \<and> q ! 4 = 5
          \<and> (\<exists>w'. assemble_quilt example_str_float example_tiles_world = Inr w'
                 \<and> u_quilt_image (job w') = Some q))"
proof -
  let ?w = example_tiles_world
  have h1: "0 < rows (job ?w)" and h2: "0 < columns (job ?w)" by (simp_all add: example_defs)
  have h3: "nat (rows (job ?w)) * nat (columns (job ?w)) \<le> length (u_view_images_pixels (job ?w))"
    by (simp add: example_defs)
  have h4: "\<forall>i < nat (rows (job ?w)) * nat (columns (job ?w)).
              length (u_view_images_pixels (job ?w) ! i) = resolution_x (sc ?w) * resolution_y (sc ?w) * 4"
    by (simp add: example_defs less_Suc_eq numeral_2_eq_2 nth_Cons')
  have f: "view_filepath example_str_float (sc ?w) (job ?w) None None \<in> dom (files ?w)"
    by (simp add: example_defs path_defs)
  from C5_quilt_layout [OF h1 h2 h3 h4, of example_str_float] f
  obtain q w' where q: "quilt_pixels (sc ?w) (job ?w) = Inr q"
      "length q = (nat (columns (job ?w)) * resolution_x (sc ?w)) * (nat (rows (job ?w)) * resolution_y (sc ?w)) * 4"
      "\<forall>r c y x k. r < nat (rows (job ?w)) \<and> c < nat (columns (job ?w))
            \<and> y < resolution_y (sc ?w) \<and> x < resolution_x (sc ?w) \<and> k < 4 \<longrightarrow>
            q ! (((r * resolution_y (sc ?w) + y) * (nat (columns (job ?w)) * resolution_x (sc ?w))
                  + (c * resolution_x (sc ?w) + x)) * 4 + k)
            = u_view_images_pixels (job ?w) ! (r * nat (columns (job ?w)) + c)
                ! ((y * resolution_x (sc ?w) + x) * 4 + k)"
      "assemble_quilt example_str_float ?w = Inr w'" "u_quilt_image (job w') = Some q"
    by blast
  have l: "length q = 8" using q(2) by (simp add: example_defs)
  have a: "q ! 0 = 1" using q(3) [rule_format, of 0 0 0 0 0] by (simp add: example_defs)
  have b: "q ! 4 = 5" using q(3) [rule_format, of 0 1 0 0 0] by (simp add: example_defs)
  show ?thesis using h1 h2 q(1,4,5) l a b by blast
qed






end
